theory Spec2Isabelle
  imports Main "HOL-Library.Sublist"
begin

section \<open>Data frames of book records\<close>

text \<open>
  The program of \<^verbatim>\<open>p2.py\<close> works on one pandas data frame, read from a CSV file.
  A frame is modelled row-major: the list of its column labels and the list of its rows,
  in input order. A row maps a column label to the cell it holds; in a frame every row
  holds a cell for every column.

  A cell is a missing value (\<open>NaN\<close> in a text or numeric column, \<open>NaT\<close> in a datetime
  column), a string, an integer, or a point in time: a count of nanoseconds since the
  epoch, either naive (\<open>Timestamp\<close>, a cell of a \<^verbatim>\<open>datetime64[ns]\<close> column) or with a
  time zone (\<open>TimestampTZ\<close>, which is what \<^verbatim>\<open>pd.to_datetime\<close> makes of a date written
  with a UTC offset). A string is the list of the bytes of its UTF-8 encoding, so that
  equality and the substring relation on the lists are those of the text.
  Floating-point cells and the row index labels are not modelled.
\<close>

datatype cell = NaN | NaT | Str string | Num int | Timestamp int | TimestampTZ int

type_synonym row = "string \<rightharpoonup> cell"

record dataframe =
  columns :: "string list"
  rows :: "row list"

text \<open>\<^verbatim>\<open>pd.DataFrame()\<close>: no columns, no rows.\<close>

definition new_frame :: dataframe where
  "new_frame = \<lparr>columns = [], rows = []\<rparr>"

text \<open>\<^verbatim>\<open>df.empty\<close> is true when either axis has length zero.\<close>

definition df_empty :: "dataframe \<Rightarrow> bool" where
  "df_empty df \<longleftrightarrow> rows df = [] \<or> columns df = []"

text \<open>\<^verbatim>\<open>df[mask]\<close>: the rows where the boolean mask holds, same columns, same order.\<close>

definition select :: "(row \<Rightarrow> bool) \<Rightarrow> dataframe \<Rightarrow> dataframe" where
  "select keep df = df\<lparr>rows := filter keep (rows df)\<rparr>"

text \<open>\<^verbatim>\<open>series == 'literal'\<close>: true on a string cell equal to the literal, false on any other cell.\<close>

definition eq_str :: "cell option \<Rightarrow> string \<Rightarrow> bool" where
  "eq_str c v \<longleftrightarrow> c = Some (Str v)"

text \<open>\<^verbatim>\<open>series.isna()\<close>.\<close>

definition isna :: "cell option \<Rightarrow> bool" where
  "isna c \<longleftrightarrow> c = Some NaN \<or> c = Some NaT"

text \<open>\<^verbatim>\<open>series.isin(values)\<close> for a list of string literals.\<close>

definition isin :: "cell option \<Rightarrow> string list \<Rightarrow> bool" where
  "isin c vs = (case c of Some (Str s) \<Rightarrow> s \<in> set vs | _ \<Rightarrow> False)"

section \<open>Summary statistics\<close>

text \<open>The dictionary returned by \<^verbatim>\<open>get_book_summary\<close> has seven fixed keys.\<close>

record summary =
  total_books :: nat
  available :: nat
  issued :: nat
  returned :: nat
  damaged :: nat
  lost :: nat
  to_be_replaced :: nat

text \<open>\<^verbatim>\<open>df[df[c] == v].shape[0] if c in df.columns else 0\<close>\<close>

definition count_where :: "dataframe \<Rightarrow> string \<Rightarrow> string \<Rightarrow> nat" where
  "count_where df c v =
     (if c \<in> set (columns df)
      then length (rows (select (\<lambda>r. eq_str (r c) v) df))
      else 0)"

definition get_book_summary :: "dataframe \<Rightarrow> summary" where
  "get_book_summary df =
     (if df_empty df then
        \<lparr>total_books = 0, available = 0, issued = 0, returned = 0,
         damaged = 0, lost = 0, to_be_replaced = 0\<rparr>
      else
        \<lparr>total_books = length (rows df),
         available = count_where df ''Status'' ''Available'',
         issued = count_where df ''Status'' ''Issued'',
         returned = count_where df ''Status'' ''Returned'',
         damaged = count_where df ''Condition'' ''Damaged'',
         lost = count_where df ''Condition'' ''Lost'',
         to_be_replaced = count_where df ''Condition'' ''To Be Replaced''\<rparr>)"

section \<open>Flag detectors\<close>

definition flagged_conditions :: "string list" where
  "flagged_conditions = [''Damaged'', ''Lost'', ''To Be Replaced'']"

definition get_flagged_books :: "dataframe \<Rightarrow> dataframe" where
  "get_flagged_books df =
     (if df_empty df \<or> ''Condition'' \<notin> set (columns df) then new_frame
      else select (\<lambda>r. isin (r ''Condition'') flagged_conditions) df)"

text \<open>
  The overdue detector reads the clock (\<^verbatim>\<open>pd.Timestamp.now()\<close>, a naive timestamp); the
  reading is the parameter \<open>today\<close>, in nanoseconds. \<^verbatim>\<open>(today - series).dt.days\<close> is the
  floor of the difference divided by one day; on a missing date it is missing, and the
  comparison \<^verbatim>\<open>> 30\<close> of a missing value is false.
\<close>

definition day_ns :: int where
  "day_ns = 86400000000000"

fun elapsed_days :: "int \<Rightarrow> cell option \<Rightarrow> int option" where
  "elapsed_days today (Some (Timestamp t)) = Some ((today - t) div day_ns)"
| "elapsed_days today _ = None"

definition gt :: "int option \<Rightarrow> int \<Rightarrow> bool" where
  "gt d n = (case d of Some k \<Rightarrow> k > n | None \<Rightarrow> False)"

text \<open>
  The subtraction \<^verbatim>\<open>today - issued_books['Issue_Date']\<close> can raise, in two ways.

  It needs a naive datetime column: every cell a naive timestamp or \<open>NaT\<close>. On a column
  of strings or numbers, and on a column of timestamps with a time zone (a naive
  timestamp minus an aware one), pandas raises \<^verbatim>\<open>TypeError\<close>.

  The difference of two timestamps is a \<^verbatim>\<open>Timedelta\<close>, a signed 64-bit count of
  nanoseconds (about 292 years either way). pandas computes the differences of the
  whole column at once and raises \<^verbatim>\<open>OverflowError\<close> when one of them does not fit.
\<close>

definition is_datetime64 :: "dataframe \<Rightarrow> string \<Rightarrow> bool" where
  "is_datetime64 df c =
     list_all (\<lambda>r. case r c of Some NaT \<Rightarrow> True | Some (Timestamp t) \<Rightarrow> True | _ \<Rightarrow> False)
       (rows df)"

definition fits_timedelta :: "int \<Rightarrow> bool" where
  "fits_timedelta d \<longleftrightarrow> - (2 ^ 63) < d \<and> d < 2 ^ 63"

definition overflows :: "int \<Rightarrow> cell option \<Rightarrow> bool" where
  "overflows today x =
     (case x of Some (Timestamp t) \<Rightarrow> \<not> fits_timedelta (today - t) | _ \<Rightarrow> False)"

datatype error = TypeError | OverflowError | ReError

definition get_overdue_books :: "int \<Rightarrow> dataframe \<Rightarrow> error + dataframe" where
  "get_overdue_books today df =
     (if df_empty df \<or> ''Status'' \<notin> set (columns df) \<or> ''Issue_Date'' \<notin> set (columns df)
      then Inr new_frame
      else
        let issued_books = select (\<lambda>r. eq_str (r ''Status'') ''Issued'') df in
        if df_empty issued_books then Inr new_frame
        else if \<not> is_datetime64 df ''Issue_Date'' then Inl TypeError
        else if list_ex (\<lambda>r. overflows today (r ''Issue_Date'')) (rows issued_books)
          then Inl OverflowError
        else if ''Return_Date'' \<in> set (columns df) then
          Inr (select (\<lambda>r. isna (r ''Return_Date'')
                           \<and> gt (elapsed_days today (r ''Issue_Date'')) 30) issued_books)
        else
          Inr (select (\<lambda>r. gt (elapsed_days today (r ''Issue_Date'')) 30) issued_books))"

text \<open>
  \<^verbatim>\<open>series.value_counts()\<close> counts the occurrences of each value and leaves missing
  values out. The result is read here as a mapping from value to count; the order in
  which pandas lists the entries is not modelled.
\<close>

fun value_counts :: "cell option list \<Rightarrow> (cell \<rightharpoonup> nat)" where
  "value_counts [] = Map.empty"
| "value_counts (x # xs) =
     (let counts = value_counts xs in
      case x of
        None \<Rightarrow> counts
      | Some v \<Rightarrow>
          if isna x then counts
          else counts(v \<mapsto> (case counts v of None \<Rightarrow> 1 | Some n \<Rightarrow> Suc n)))"

text \<open>\<^verbatim>\<open>counts[counts < threshold]\<close>\<close>

definition below :: "(cell \<rightharpoonup> nat) \<Rightarrow> int \<Rightarrow> (cell \<rightharpoonup> nat)" where
  "below counts threshold =
     (\<lambda>v. case counts v of
            Some n \<Rightarrow> if int n < threshold then Some n else None
          | None \<Rightarrow> None)"

definition get_underrepresented_genres :: "dataframe \<Rightarrow> int \<Rightarrow> (cell \<rightharpoonup> nat)" where
  "get_underrepresented_genres df threshold =
     (if df_empty df \<or> ''Category'' \<notin> set (columns df) then Map.empty
      else
        let genre_counts = value_counts (map (\<lambda>r. r ''Category'') (rows df))
        in below genre_counts threshold)"

text \<open>The default of the parameter \<^verbatim>\<open>threshold\<close>.\<close>

definition default_threshold :: int where
  "default_threshold = 5"

section \<open>Search\<close>

text \<open>
  \<^verbatim>\<open>str.lower()\<close> folds every cased letter of a text, by the tables of the Python
  library: the folding of a non-empty text is the parameter \<open>casefold\<close>. The empty text
  folds to itself.
\<close>

definition lower :: "(string \<Rightarrow> string) \<Rightarrow> string \<Rightarrow> string" where
  "lower casefold s = (if s = [] then [] else casefold s)"

text \<open>
  On a text in ASCII, the folding turns the letters \<open>A\<close> to \<open>Z\<close> into \<open>a\<close> to \<open>z\<close> and
  keeps every other character; \<open>ascii_lower\<close> stands for the folding of the library on such
  texts only.
\<close>

definition lower_char :: "char \<Rightarrow> char" where
  "lower_char c =
     (case map_of (zip ''ABCDEFGHIJKLMNOPQRSTUVWXYZ'' ''abcdefghijklmnopqrstuvwxyz'') c of
        Some l \<Rightarrow> l
      | None \<Rightarrow> c)"

definition ascii_lower :: "string \<Rightarrow> string" where
  "ascii_lower s = map lower_char s"

text \<open>
  \<^verbatim>\<open>series.astype(str)\<close> turns every value into a string, a missing value too: it becomes
  the text \<^verbatim>\<open>nan\<close> (\<^verbatim>\<open>NaT\<close> in a datetime column), as pandas does before version 3.
  How pandas prints a number or a timestamp is the parameter \<open>fmt\<close>. The string methods
  that follow work on present values; \<^verbatim>\<open>str.contains(pat, na=False)\<close> answers
  \<open>False\<close> on a missing one.
\<close>

definition astype_str :: "(cell \<Rightarrow> string) \<Rightarrow> cell option \<Rightarrow> string option" where
  "astype_str fmt x =
     map_option (\<lambda>c. case c of Str s \<Rightarrow> s | NaN \<Rightarrow> ''nan'' | NaT \<Rightarrow> ''NaT'' | _ \<Rightarrow> fmt c) x"

definition str_lower :: "(string \<Rightarrow> string) \<Rightarrow> string option \<Rightarrow> string option" where
  "str_lower casefold x = map_option (lower casefold) x"

definition str_contains :: "(string \<Rightarrow> bool) \<Rightarrow> bool \<Rightarrow> string option \<Rightarrow> bool" where
  "str_contains found na x = (case x of None \<Rightarrow> na | Some s \<Rightarrow> found s)"

text \<open>
  \<^verbatim>\<open>str.contains\<close> compiles its pattern as a regular expression (\<^verbatim>\<open>regex=True\<close> is the
  default) and searches each string with it. The regular-expression engine of the Python
  library is a parameter \<open>re_compile\<close>: it gives the search predicate of the pattern, or
  \<open>None\<close> where the pattern does not compile and \<^verbatim>\<open>re.error\<close> is raised.

  The step of \<^verbatim>\<open>main\<close> that computes \<^verbatim>\<open>filtered_df\<close>: \<open>choice\<close> is what the user picked
  in the select box, \<open>typed\<close> what the user typed in the text input (empty by default).
\<close>

definition search_columns :: "dataframe \<Rightarrow> string list" where
  "search_columns df = [col \<leftarrow> [''Title'', ''Authors'']. col \<in> set (columns df)]"

definition selectbox :: "string list \<Rightarrow> string \<Rightarrow> string" where
  "selectbox options choice = (if choice \<in> set options then choice else hd options)"

definition filtered_df ::
  "(string \<Rightarrow> (string \<Rightarrow> bool) option) \<Rightarrow> (cell \<Rightarrow> string) \<Rightarrow> (string \<Rightarrow> string)
     \<Rightarrow> dataframe \<Rightarrow> string \<Rightarrow> string \<Rightarrow> error + dataframe" where
  "filtered_df re_compile fmt casefold df choice typed =
     (if search_columns df \<noteq> [] then
        let search_field = selectbox (search_columns df) choice;
            search_query = lower casefold typed
        in
          if search_query \<noteq> [] then
            (case re_compile search_query of
               None \<Rightarrow> Inl ReError
             | Some found \<Rightarrow>
                 Inr (select (\<lambda>r. str_contains found False
                                     (str_lower casefold
                                        (astype_str fmt (r search_field)))) df))
          else Inr df
      else Inr df)"

text \<open>
  The characters with a special meaning in a Python regular expression. A pattern without
  any of them matches itself and nothing else, so searching for it is searching for a
  substring; this is what the predicate \<open>python_re\<close> asks of an engine.
\<close>

definition re_special :: "char list" where
  "re_special = ''.^$*+?{}[]|()'' @ [CHR 0x5C]"

definition literal_pattern :: "string \<Rightarrow> bool" where
  "literal_pattern p = list_all (\<lambda>c. c \<notin> set re_special) p"

definition python_re :: "(string \<Rightarrow> (string \<Rightarrow> bool) option) \<Rightarrow> bool" where
  "python_re re_compile \<longleftrightarrow>
     (\<forall>p. literal_pattern p \<longrightarrow>
        (\<exists>found. re_compile p = Some found \<and> (\<forall>s. found s = sublist p s)))"

text \<open>
  An engine for the patterns made of ordinary characters and the dot, which matches any
  one character except a newline: the search tries the pattern at every position of the
  string. It stands for the Python engine on such patterns and on texts in ASCII only.
\<close>

fun match_here :: "string \<Rightarrow> string \<Rightarrow> bool" where
  "match_here [] s = True"
| "match_here (p # ps) [] = False"
| "match_here (p # ps) (c # cs) =
     ((if p = CHR ''.'' then c \<noteq> CHR 0x0A else p = c) \<and> match_here ps cs)"

fun re_search :: "string \<Rightarrow> string \<Rightarrow> bool" where
  "re_search p [] = match_here p []"
| "re_search p (c # cs) = (match_here p (c # cs) \<or> re_search p cs)"

definition re_compile_dot :: "string \<Rightarrow> (string \<Rightarrow> bool) option" where
  "re_compile_dot p =
     (if list_all (\<lambda>c. c = CHR ''.'' \<or> c \<notin> set re_special) p then Some (re_search p)
      else None)"

section \<open>Spreadsheet export\<close>

text \<open>
  \<^verbatim>\<open>df.to_excel(writer, index=False, sheet_name=...)\<close> lays the frame out as one sheet:
  a header row of the column labels, then one row per record with its cells in column
  order and no index column.
\<close>

record sheet =
  sheet_name :: string
  header :: "string list"
  body :: "cell option list list"

definition to_excel :: "dataframe \<Rightarrow> string \<Rightarrow> sheet" where
  "to_excel df name =
     \<lparr>sheet_name = name, header = columns df, body = map (\<lambda>r. map r (columns df)) (rows df)\<rparr>"

text \<open>
  The encoding of the sheets into the bytes of an \<^verbatim>\<open>.xlsx\<close> file belongs to the
  \<^verbatim>\<open>xlsxwriter\<close> library; it is the parameter \<open>xlsxwriter\<close>, which gives the bytes or
  fails with the message of the exception it raises. \<^verbatim>\<open>convert_df_to_excel\<close> catches
  the exception, reports it with \<^verbatim>\<open>st.error\<close> and returns \<^verbatim>\<open>None\<close>; the messages shown
  so far are the state \<open>shown\<close>.
\<close>

type_synonym bytes = "char list"

definition convert_df_to_excel ::
  "(sheet list \<Rightarrow> string + bytes) \<Rightarrow> dataframe \<Rightarrow> string list \<Rightarrow> bytes option \<times> string list" where
  "convert_df_to_excel xlsxwriter df shown =
     (case xlsxwriter [to_excel df ''Library_Books''] of
        Inr output \<Rightarrow> (Some output, shown)
      | Inl e \<Rightarrow> (None, shown @ [''Error converting to Excel: '' @ e]))"

text \<open>
  The caller in \<^verbatim>\<open>main\<close> offers the download only \<^verbatim>\<open>if excel_data\<close>: not for \<^verbatim>\<open>None\<close>,
  nor for an empty byte string.
\<close>

definition download_button ::
  "(sheet list \<Rightarrow> string + bytes) \<Rightarrow> dataframe \<Rightarrow> string list \<Rightarrow> bytes option \<times> string list" where
  "download_button xlsxwriter df shown =
     (let (excel_data, shown') = convert_df_to_excel xlsxwriter df shown
      in case excel_data of
           Some payload \<Rightarrow> (if payload \<noteq> [] then (Some payload, shown') else (None, shown'))
         | None \<Rightarrow> (None, shown'))"

section \<open>Frames as objects\<close>

text \<open>
  Python passes frames by reference, and pandas has operations that make a new frame
  object and operations that write into an existing one. To tell them apart, the functions
  are written once more as they run on a store of frame objects: a reference is a position
  in the store, and a new object is put at the end.
\<close>

type_synonym ref = nat
type_synonym store = "dataframe list"

definition alloc :: "dataframe \<Rightarrow> store \<Rightarrow> ref \<times> store" where
  "alloc df h = (length h, h @ [df])"

text \<open>\<^verbatim>\<open>pd.DataFrame()\<close> makes a new, empty frame object.\<close>

definition DataFrame :: "store \<Rightarrow> ref \<times> store" where
  "DataFrame h = alloc new_frame h"

text \<open>
  \<^verbatim>\<open>df[mask]\<close> reads the frame and makes a new frame object of the selected rows;
  \<^verbatim>\<open>df.copy()\<close> makes a new frame object with the same contents.
\<close>

definition getitem :: "ref \<Rightarrow> (row \<Rightarrow> bool) \<Rightarrow> store \<Rightarrow> ref \<times> store" where
  "getitem a keep h = alloc (select keep (h ! a)) h"

definition copy :: "ref \<Rightarrow> store \<Rightarrow> ref \<times> store" where
  "copy a h = alloc (h ! a) h"

text \<open>
  \<^verbatim>\<open>df[col] = values\<close> writes the column into the frame object itself. The loader in
  \<^verbatim>\<open>main\<close> does so with the parsed dates, for each of the two date columns the file has;
  \<^verbatim>\<open>pd.to_datetime(series, errors='coerce')\<close> is the parameter \<open>to_datetime\<close>.
\<close>

definition setitem :: "ref \<Rightarrow> string \<Rightarrow> cell list \<Rightarrow> store \<Rightarrow> store" where
  "setitem a col vals h =
     h[a := (h ! a)
          \<lparr>columns := (if col \<in> set (columns (h ! a)) then columns (h ! a)
                       else columns (h ! a) @ [col]),
           rows := map (\<lambda>(r, v). r(col \<mapsto> v)) (zip (rows (h ! a)) vals)\<rparr>]"

definition parse_dates :: "(cell option list \<Rightarrow> cell list) \<Rightarrow> ref \<Rightarrow> store \<Rightarrow> store" where
  "parse_dates to_datetime a h =
     fold (\<lambda>col h. if col \<in> set (columns (h ! a))
                    then setitem a col (to_datetime (map (\<lambda>r. r col) (rows (h ! a)))) h
                    else h)
       [''Issue_Date'', ''Return_Date''] h"

text \<open>
  The functions of the program on the store, statement by statement. Each takes the
  reference of its argument; a function that returns a frame returns its reference.
\<close>

definition count_where_at :: "ref \<Rightarrow> string \<Rightarrow> string \<Rightarrow> store \<Rightarrow> nat \<times> store" where
  "count_where_at a c v h =
     (if c \<in> set (columns (h ! a)) then
        (let (b, h') = getitem a (\<lambda>r. eq_str (r c) v) h in (length (rows (h' ! b)), h'))
      else (0, h))"

definition get_book_summary_at :: "ref \<Rightarrow> store \<Rightarrow> summary \<times> store" where
  "get_book_summary_at a h =
     (if df_empty (h ! a) then
        (\<lparr>total_books = 0, available = 0, issued = 0, returned = 0,
          damaged = 0, lost = 0, to_be_replaced = 0\<rparr>, h)
      else
        let n = length (rows (h ! a));
            (n1, h1) = count_where_at a ''Status'' ''Available'' h;
            (n2, h2) = count_where_at a ''Status'' ''Issued'' h1;
            (n3, h3) = count_where_at a ''Status'' ''Returned'' h2;
            (n4, h4) = count_where_at a ''Condition'' ''Damaged'' h3;
            (n5, h5) = count_where_at a ''Condition'' ''Lost'' h4;
            (n6, h6) = count_where_at a ''Condition'' ''To Be Replaced'' h5
        in (\<lparr>total_books = n, available = n1, issued = n2, returned = n3,
             damaged = n4, lost = n5, to_be_replaced = n6\<rparr>, h6))"

definition get_flagged_books_at :: "ref \<Rightarrow> store \<Rightarrow> ref \<times> store" where
  "get_flagged_books_at a h =
     (if df_empty (h ! a) \<or> ''Condition'' \<notin> set (columns (h ! a)) then DataFrame h
      else getitem a (\<lambda>r. isin (r ''Condition'') flagged_conditions) h)"

definition get_overdue_books_at :: "int \<Rightarrow> ref \<Rightarrow> store \<Rightarrow> (error + ref) \<times> store" where
  "get_overdue_books_at today a h =
     (if df_empty (h ! a) \<or> ''Status'' \<notin> set (columns (h ! a))
         \<or> ''Issue_Date'' \<notin> set (columns (h ! a))
      then (let (b, h') = DataFrame h in (Inr b, h'))
      else
        let (selected, h1) = getitem a (\<lambda>r. eq_str (r ''Status'') ''Issued'') h;
            (issued_books, h2) = copy selected h1
        in
          if df_empty (h2 ! issued_books) then (let (b, h') = DataFrame h2 in (Inr b, h'))
          else if \<not> is_datetime64 (h2 ! a) ''Issue_Date'' then (Inl TypeError, h2)
          else if list_ex (\<lambda>r. overflows today (r ''Issue_Date'')) (rows (h2 ! issued_books))
            then (Inl OverflowError, h2)
          else if ''Return_Date'' \<in> set (columns (h2 ! a)) then
            (let (b, h') = getitem issued_books
                             (\<lambda>r. isna (r ''Return_Date'')
                                  \<and> gt (elapsed_days today (r ''Issue_Date'')) 30) h2
             in (Inr b, h'))
          else
            (let (b, h') = getitem issued_books
                             (\<lambda>r. gt (elapsed_days today (r ''Issue_Date'')) 30) h2
             in (Inr b, h')))"

text \<open>
  \<^verbatim>\<open>get_underrepresented_genres\<close> works on series, which are not frame objects, and
  returns one.
\<close>

definition get_underrepresented_genres_at ::
  "ref \<Rightarrow> int \<Rightarrow> store \<Rightarrow> (cell \<rightharpoonup> nat) \<times> store" where
  "get_underrepresented_genres_at a threshold h =
     (if df_empty (h ! a) \<or> ''Category'' \<notin> set (columns (h ! a)) then (Map.empty, h)
      else
        let genre_counts = value_counts (map (\<lambda>r. r ''Category'') (rows (h ! a)))
        in (below genre_counts threshold, h))"

text \<open>
  In \<^verbatim>\<open>main\<close>, \<^verbatim>\<open>filtered_df = df[mask]\<close> is a new object and \<^verbatim>\<open>filtered_df = df\<close> is
  the loaded frame itself, which the functions above are then run on.
\<close>

definition filtered_df_at ::
  "(string \<Rightarrow> (string \<Rightarrow> bool) option) \<Rightarrow> (cell \<Rightarrow> string) \<Rightarrow> (string \<Rightarrow> string)
     \<Rightarrow> ref \<Rightarrow> string \<Rightarrow> string \<Rightarrow> store \<Rightarrow> (error + ref) \<times> store" where
  "filtered_df_at re_compile fmt casefold a choice typed h =
     (if search_columns (h ! a) \<noteq> [] then
        let search_field = selectbox (search_columns (h ! a)) choice;
            search_query = lower casefold typed
        in
          if search_query \<noteq> [] then
            (case re_compile search_query of
               None \<Rightarrow> (Inl ReError, h)
             | Some found \<Rightarrow>
                 (let (b, h') = getitem a
                                  (\<lambda>r. str_contains found False
                                          (str_lower casefold
                                             (astype_str fmt (r search_field)))) h
                  in (Inr b, h')))
          else (Inr a, h)
      else (Inr a, h))"

text \<open>
  One pass of \<^verbatim>\<open>main\<close> over a loaded frame: the search, then the four functions on its
  result. An exception ends the pass.
\<close>

definition main_pass ::
  "(string \<Rightarrow> (string \<Rightarrow> bool) option) \<Rightarrow> (cell \<Rightarrow> string) \<Rightarrow> (string \<Rightarrow> string)
     \<Rightarrow> int \<Rightarrow> ref \<Rightarrow> string \<Rightarrow> string \<Rightarrow> store \<Rightarrow> store" where
  "main_pass re_compile fmt casefold today df choice typed h =
     (case filtered_df_at re_compile fmt casefold df choice typed h of
        (Inl e, h1) \<Rightarrow> h1
      | (Inr filtered, h1) \<Rightarrow>
          let (stats, h2) = get_book_summary_at filtered h1;
              (flagged_books, h3) = get_flagged_books_at filtered h2
          in case get_overdue_books_at today filtered h3 of
               (Inl e, h4) \<Rightarrow> h4
             | (Inr overdue_books, h4) \<Rightarrow>
                 snd (get_underrepresented_genres_at filtered default_threshold h4))"

text \<open>A file as read, before its dates are parsed.\<close>

definition raw_loan :: dataframe where
  "raw_loan =
     \<lparr>columns = [''Status'', ''Issue_Date''],
      rows = [[''Status'' \<mapsto> Str ''Issued'', ''Issue_Date'' \<mapsto> Str ''2024-01-15'']]\<rparr>"

section \<open>Example frames\<close>

text \<open>
  The sample of the expected CSV format shown by \<^verbatim>\<open>main\<close>, as loaded: the dates
  parsed (days are counted from the epoch, so 19737 is 15 January 2024), the empty
  cells missing.
\<close>

definition example_books :: dataframe where
  "example_books =
     \<lparr>columns = [''Title'', ''Authors'', ''Status'', ''Condition'', ''Category'',
                 ''Issue_Date'', ''Return_Date'', ''Year''],
      rows =
        [[''Title'' \<mapsto> Str ''The Great Gatsby'', ''Authors'' \<mapsto> Str ''F. Scott Fitzgerald'',
          ''Status'' \<mapsto> Str ''Available'', ''Condition'' \<mapsto> Str ''Good'',
          ''Category'' \<mapsto> Str ''Fiction'', ''Issue_Date'' \<mapsto> Timestamp (19737 * day_ns),
          ''Return_Date'' \<mapsto> NaT, ''Year'' \<mapsto> Num 2020],
         [''Title'' \<mapsto> Str ''To Kill a Mockingbird'', ''Authors'' \<mapsto> Str ''Harper Lee'',
          ''Status'' \<mapsto> Str ''Issued'', ''Condition'' \<mapsto> Str ''Good'',
          ''Category'' \<mapsto> Str ''Fiction'', ''Issue_Date'' \<mapsto> Timestamp (19754 * day_ns),
          ''Return_Date'' \<mapsto> NaT, ''Year'' \<mapsto> Num 2019],
         [''Title'' \<mapsto> Str ''1984'', ''Authors'' \<mapsto> Str ''George Orwell'',
          ''Status'' \<mapsto> Str ''Available'', ''Condition'' \<mapsto> Str ''Damaged'',
          ''Category'' \<mapsto> Str ''Dystopian'', ''Issue_Date'' \<mapsto> NaT,
          ''Return_Date'' \<mapsto> NaT, ''Year'' \<mapsto> Num 2021]]\<rparr>"

text \<open>
  Five loans, looked at on day 20000: issued 45 days before and not returned; issued
  45 days before and returned; issued 10 days before; issued one nanosecond less than
  31 days before; issued exactly 31 days before.
\<close>

definition loans :: dataframe where
  "loans =
     \<lparr>columns = [''Title'', ''Status'', ''Issue_Date'', ''Return_Date''],
      rows =
        [[''Title'' \<mapsto> Str ''A'', ''Status'' \<mapsto> Str ''Issued'',
          ''Issue_Date'' \<mapsto> Timestamp (19955 * day_ns), ''Return_Date'' \<mapsto> NaT],
         [''Title'' \<mapsto> Str ''B'', ''Status'' \<mapsto> Str ''Issued'',
          ''Issue_Date'' \<mapsto> Timestamp (19955 * day_ns),
          ''Return_Date'' \<mapsto> Timestamp (19990 * day_ns)],
         [''Title'' \<mapsto> Str ''C'', ''Status'' \<mapsto> Str ''Issued'',
          ''Issue_Date'' \<mapsto> Timestamp (19990 * day_ns), ''Return_Date'' \<mapsto> NaT],
         [''Title'' \<mapsto> Str ''D'', ''Status'' \<mapsto> Str ''Issued'',
          ''Issue_Date'' \<mapsto> Timestamp (19969 * day_ns + 1), ''Return_Date'' \<mapsto> NaT],
         [''Title'' \<mapsto> Str ''E'', ''Status'' \<mapsto> Str ''Issued'',
          ''Issue_Date'' \<mapsto> Timestamp (19969 * day_ns), ''Return_Date'' \<mapsto> NaT]]\<rparr>"


definition aware_loan :: dataframe where
  "aware_loan =
     \<lparr>columns = [''Status'', ''Issue_Date''],
      rows = [[''Status'' \<mapsto> Str ''Issued'', ''Issue_Date'' \<mapsto> TimestampTZ (19955 * day_ns)]]\<rparr>"

definition genres :: dataframe where
  "genres =
     \<lparr>columns = [''Category''],
      rows = [[''Category'' \<mapsto> Str ''Fiction''], [''Category'' \<mapsto> Str ''Dystopian''],
              [''Category'' \<mapsto> Str ''Fiction''], [''Category'' \<mapsto> NaN]]\<rparr>"

section \<open>Properties of the summary\<close>

lemma count_where_le: "count_where df c v \<le> length (rows df)"
  by (simp add: count_where_def select_def)

lemma count_where_no_rows: "rows df = [] \<Longrightarrow> count_where df c v = 0"
  by (simp add: count_where_def select_def)

text \<open>
  Claim C6. For every frame, each of the counts Available, Issued and Returned of the
  summary is at most the Total Books field of the same summary.
\<close>

theorem summary_status_counts_le_total:
  "available (get_book_summary df) \<le> total_books (get_book_summary df)
   \<and> issued (get_book_summary df) \<le> total_books (get_book_summary df)
   \<and> returned (get_book_summary df) \<le> total_books (get_book_summary df)"
  by (simp add: get_book_summary_def count_where_le)

text \<open>
  Claim C4, as amended. For every frame with at least one column, the summary has Total
  Books equal to the number of records, each of Available, Issued and Returned equal to the
  number of records whose Status is exactly that literal (0 when the Status column is
  absent), and each of Damaged, Lost and To Be Replaced equal to the number of records
  whose Condition is exactly that literal (0 when the Condition column is absent). On a
  frame without rows or without columns every field is 0.
\<close>

theorem summary_counts_records:
  "(columns df \<noteq> [] \<longrightarrow>
      get_book_summary df =
        \<lparr>total_books = length (rows df),
         available = (if ''Status'' \<in> set (columns df)
                      then length [r \<leftarrow> rows df. r ''Status'' = Some (Str ''Available'')] else 0),
         issued = (if ''Status'' \<in> set (columns df)
                   then length [r \<leftarrow> rows df. r ''Status'' = Some (Str ''Issued'')] else 0),
         returned = (if ''Status'' \<in> set (columns df)
                     then length [r \<leftarrow> rows df. r ''Status'' = Some (Str ''Returned'')] else 0),
         damaged = (if ''Condition'' \<in> set (columns df)
                    then length [r \<leftarrow> rows df. r ''Condition'' = Some (Str ''Damaged'')] else 0),
         lost = (if ''Condition'' \<in> set (columns df)
                 then length [r \<leftarrow> rows df. r ''Condition'' = Some (Str ''Lost'')] else 0),
         to_be_replaced = (if ''Condition'' \<in> set (columns df)
                 then length [r \<leftarrow> rows df. r ''Condition'' = Some (Str ''To Be Replaced'')] else 0)\<rparr>)
   \<and> (rows df = [] \<or> columns df = [] \<longrightarrow>
      get_book_summary df =
        \<lparr>total_books = 0, available = 0, issued = 0, returned = 0,
         damaged = 0, lost = 0, to_be_replaced = 0\<rparr>)"
  by (simp add: get_book_summary_def df_empty_def count_where_def select_def eq_str_def)

theorem summary_counts_records_witness:
  "columns example_books \<noteq> []
   \<and> get_book_summary example_books =
        \<lparr>total_books = 3, available = 2, issued = 1, returned = 0,
         damaged = 1, lost = 0, to_be_replaced = 0\<rparr>
   \<and> get_book_summary \<lparr>columns = [''Status''], rows = []\<rparr> =
        \<lparr>total_books = 0, available = 0, issued = 0, returned = 0,
         damaged = 0, lost = 0, to_be_replaced = 0\<rparr>"
  using summary_counts_records [of example_books]
    summary_counts_records [of "\<lparr>columns = [''Status''], rows = []\<rparr>"]
  by (simp add: example_books_def)

text \<open>
  The claim as written fails on a frame that has a record but no column: \<^verbatim>\<open>df.empty\<close>
  holds there, so Total Books is 0 and not 1.
\<close>

theorem summary_total_counterexample:
  "total_books (get_book_summary \<lparr>columns = [], rows = [Map.empty]\<rparr>)
     \<noteq> length (rows \<lparr>columns = [], rows = [Map.empty]\<rparr>)"
  by (simp add: get_book_summary_def df_empty_def)

section \<open>Properties of the flag detectors\<close>

lemma subseq_select: "subseq (rows (select keep df)) (rows df)"
  by (simp add: select_def)

text \<open>
  Claim C5. For every frame, the flagged-condition filter returns records of the input,
  in their order, each with Condition one of Damaged, Lost, To Be Replaced; it returns no
  record when the Condition column is absent or the frame has no rows.
\<close>

theorem flagged_books_conditions:
  "subseq (rows (get_flagged_books df)) (rows df)
   \<and> (\<forall>r \<in> set (rows (get_flagged_books df)).
         r ''Condition'' = Some (Str ''Damaged'') \<or> r ''Condition'' = Some (Str ''Lost'')
         \<or> r ''Condition'' = Some (Str ''To Be Replaced''))
   \<and> (''Condition'' \<notin> set (columns df) \<or> rows df = [] \<longrightarrow> rows (get_flagged_books df) = [])"
  by (auto simp: get_flagged_books_def new_frame_def select_def df_empty_def isin_def
      flagged_conditions_def split: option.splits cell.splits)

theorem flagged_books_conditions_witness:
  "rows (get_flagged_books example_books) = [rows example_books ! 2]
   \<and> subseq (rows (get_flagged_books example_books)) (rows example_books)
   \<and> rows (get_flagged_books (example_books\<lparr>columns := [''Title'']\<rparr>)) = []"
  using flagged_books_conditions [of example_books]
    flagged_books_conditions [of "example_books\<lparr>columns := [''Title'']\<rparr>"]
  by (simp add: example_books_def get_flagged_books_def df_empty_def select_def isin_def
      flagged_conditions_def)



lemma overflows_iff:
  "overflows today x \<longleftrightarrow>
     (\<exists>t. x = Some (Timestamp t) \<and> (today - t \<le> - (2 ^ 63) \<or> 2 ^ 63 \<le> today - t))"
  by (auto simp: overflows_def fits_timedelta_def split: option.splits cell.splits)

text \<open>More than 30 whole days have elapsed exactly when at least 31 full days have.\<close>

lemma whole_days_over_30: "30 < d div day_ns \<longleftrightarrow> 31 * day_ns \<le> d"
  unfolding day_ns_def by linarith




text \<open>
  A date column with a time zone is not a naive datetime column: the filter raises on it.
\<close>

lemma overdue_aware_column:
  "get_overdue_books (20000 * day_ns) aware_loan = Inl TypeError"
  by (simp add: aware_loan_def get_overdue_books_def df_empty_def select_def eq_str_def
      is_datetime64_def)

lemma value_counts_eq:
  "value_counts xs v =
     (if v = NaN \<or> v = NaT \<or> Some v \<notin> set xs then None
      else Some (length [x \<leftarrow> xs. x = Some v]))"
proof (induction xs)
  case Nil
  then show ?case by simp
next
  case (Cons x xs)
  show ?case
  proof (cases x)
    case None
    with Cons show ?thesis by simp
  next
    case (Some w)
    with Cons show ?thesis
      by (auto simp: isna_def Let_def filter_empty_conv)
  qed
qed

lemma column_value_counts:
  "value_counts (map f rs) v =
     (if v = NaN \<or> v = NaT \<or> (\<forall>r \<in> set rs. f r \<noteq> Some v) then None
      else Some (length [r \<leftarrow> rs. f r = Some v]))"
proof -
  have "length [x \<leftarrow> map f rs. x = Some v] = length [r \<leftarrow> rs. f r = Some v]"
    by (induction rs) simp_all
  moreover have "Some v \<notin> set (map f rs) \<longleftrightarrow> (\<forall>r \<in> set rs. f r \<noteq> Some v)"
    by (induction rs) auto
  ultimately show ?thesis
    unfolding value_counts_eq by presburger
qed

text \<open>
  Claim C2. For every frame with a Category column and every threshold, the detector
  maps a value to a count exactly when the value is a (non-missing) Category value of some
  record, the count is the number of records with that Category, and the count is
  strictly below the threshold. If the Category column is absent or the frame has no rows
  the mapping is empty.
\<close>

theorem underrepresented_genres_exact:
  "(''Category'' \<in> set (columns df) \<longrightarrow>
      (\<forall>v n. get_underrepresented_genres df threshold v = Some n \<longleftrightarrow>
         v \<noteq> NaN \<and> v \<noteq> NaT
         \<and> (\<exists>r \<in> set (rows df). r ''Category'' = Some v)
         \<and> n = length [r \<leftarrow> rows df. r ''Category'' = Some v]
         \<and> int n < threshold))
   \<and> (''Category'' \<notin> set (columns df) \<or> rows df = [] \<longrightarrow>
        get_underrepresented_genres df threshold = Map.empty)"
proof (intro conjI impI allI)
  assume "''Category'' \<notin> set (columns df) \<or> rows df = []"
  then show "get_underrepresented_genres df threshold = Map.empty"
    by (auto simp: get_underrepresented_genres_def df_empty_def)
next
  fix v n
  assume c: "''Category'' \<in> set (columns df)"
  show "get_underrepresented_genres df threshold v = Some n \<longleftrightarrow>
         v \<noteq> NaN \<and> v \<noteq> NaT
         \<and> (\<exists>r \<in> set (rows df). r ''Category'' = Some v)
         \<and> n = length [r \<leftarrow> rows df. r ''Category'' = Some v]
         \<and> int n < threshold"
  proof (cases "rows df = []")
    case True
    then show ?thesis
      by (simp add: get_underrepresented_genres_def df_empty_def)
  next
    case False
    with c have "\<not> df_empty df" by (auto simp: df_empty_def)
    with c show ?thesis
      by (auto simp: get_underrepresented_genres_def below_def column_value_counts
          split: if_splits)
  qed
qed

theorem underrepresented_genres_exact_witness:
  "''Category'' \<in> set (columns genres)
   \<and> get_underrepresented_genres genres default_threshold (Str ''Fiction'') = Some 2
   \<and> get_underrepresented_genres genres default_threshold (Str ''Dystopian'') = Some 1
   \<and> get_underrepresented_genres genres 2 (Str ''Fiction'') \<noteq> Some 2
   \<and> get_underrepresented_genres (genres\<lparr>columns := [''Title'']\<rparr>) default_threshold = Map.empty"
proof -
  have c: "''Category'' \<in> set (columns genres)"
    by (simp add: genres_def)
  note at_default =
    underrepresented_genres_exact [of genres default_threshold, THEN conjunct1, rule_format, OF c]
  note at_two =
    underrepresented_genres_exact [of genres 2, THEN conjunct1, rule_format, OF c]
  have "get_underrepresented_genres genres default_threshold (Str ''Fiction'') = Some 2"
    unfolding at_default by (simp add: genres_def default_threshold_def)
  moreover have "get_underrepresented_genres genres default_threshold (Str ''Dystopian'') = Some 1"
    unfolding at_default by (simp add: genres_def default_threshold_def)
  moreover have "get_underrepresented_genres genres 2 (Str ''Fiction'') \<noteq> Some 2"
    unfolding at_two by (simp add: genres_def)
  moreover have "get_underrepresented_genres (genres\<lparr>columns := [''Title'']\<rparr>) default_threshold
      = Map.empty"
    using underrepresented_genres_exact [of "genres\<lparr>columns := [''Title'']\<rparr>" default_threshold]
    by (simp add: genres_def)
  ultimately show ?thesis using c by simp
qed

section \<open>Properties of the search\<close>

lemma match_here_prefix:
  "list_all (\<lambda>c. c \<noteq> CHR ''.'') p \<Longrightarrow> match_here p s = prefix p s"
  by (induction p s rule: match_here.induct) auto

lemma re_search_sublist:
  "list_all (\<lambda>c. c \<noteq> CHR ''.'') p \<Longrightarrow> re_search p s = sublist p s"
proof (induction s)
  case Nil
  then show ?case by (simp add: match_here_prefix)
next
  case (Cons c cs)
  then show ?case by (simp add: match_here_prefix sublist_Cons_right)
qed

lemma literal_no_dot: "literal_pattern p \<Longrightarrow> list_all (\<lambda>c. c \<noteq> CHR ''.'') p"
  by (auto simp: literal_pattern_def re_special_def list_all_iff)

lemma python_re_dot: "python_re re_compile_dot"
  unfolding python_re_def
proof (intro allI impI)
  fix p
  assume lit: "literal_pattern p"
  then have "re_compile_dot p = Some (re_search p)"
    by (auto simp: re_compile_dot_def literal_pattern_def list_all_iff)
  moreover have "\<forall>s. re_search p s = sublist p s"
    using lit by (simp add: re_search_sublist literal_no_dot)
  ultimately show "\<exists>found. re_compile_dot p = Some found \<and> (\<forall>s. found s = sublist p s)"
    by blast
qed

lemma selectbox_member: "choice \<in> set options \<Longrightarrow> selectbox options choice = choice"
  by (simp add: selectbox_def)

lemma lower_orwell: "lower ascii_lower ''orwell'' = ''orwell''"
  by (simp add: lower_def ascii_lower_def lower_char_def)

text \<open>
  Claim C3, as amended. For every frame, every search field among the Title and Authors
  columns the frame has, and every query that is non-empty and, lowercased, free of
  regular-expression metacharacters, the search returns a frame with the same columns in
  which the records with a field value that is not missing are exactly the records of the
  input with a field value that is not missing whose string form, lowercased, contains the
  lowercased query as a substring, in input order. The engine is any one that searches a
  metacharacter-free pattern as a substring, as the Python engine does.
\<close>

theorem search_literal_query:
  assumes "python_re re_compile"
    and "literal_pattern (lower casefold typed)" and "lower casefold typed \<noteq> []"
    and "field \<in> set (search_columns df)"
  shows "\<exists>out. filtered_df re_compile fmt casefold df field typed = Inr out
           \<and> columns out = columns df
           \<and> [r \<leftarrow> rows out. r field \<noteq> Some NaN \<and> r field \<noteq> Some NaT] =
              [r \<leftarrow> rows df. r field \<noteq> Some NaN \<and> r field \<noteq> Some NaT
                 \<and> (\<exists>s. astype_str fmt (r field) = Some s \<and> sublist (lower casefold typed) (lower casefold s))]"
proof -
  from assms(1,2) obtain found where
    c: "re_compile (lower casefold typed) = Some found" and f: "\<And>s. found s = sublist (lower casefold typed) s"
    unfolding python_re_def by blast
  let ?keep = "\<lambda>r::row. str_contains found False (str_lower casefold (astype_str fmt (r field)))"
  from assms(4) have ne: "search_columns df \<noteq> []" by auto
  have out: "filtered_df re_compile fmt casefold df field typed = Inr (select ?keep df)"
    using ne assms(3,4) c by (simp add: filtered_df_def selectbox_member)
  have keep: "?keep r \<longleftrightarrow> (\<exists>s. astype_str fmt (r field) = Some s \<and> sublist (lower casefold typed) (lower casefold s))"
    for r
    by (cases "astype_str fmt (r field)") (simp_all add: str_contains_def str_lower_def f)
  have "[r \<leftarrow> rows (select ?keep df). r field \<noteq> Some NaN \<and> r field \<noteq> Some NaT] =
        [r \<leftarrow> rows df. r field \<noteq> Some NaN \<and> r field \<noteq> Some NaT
           \<and> (\<exists>s. astype_str fmt (r field) = Some s \<and> sublist (lower casefold typed) (lower casefold s))]"
    unfolding select_def by (simp add: keep conj_commute cong: conj_cong)
  with out show ?thesis by (simp add: select_def)
qed

text \<open>
  The query \<^verbatim>\<open>orwell\<close> on the field Authors of the example frame returns exactly its
  third record.
\<close>

theorem search_literal_query_witness:
  "python_re re_compile_dot \<and> literal_pattern (lower ascii_lower ''orwell'') \<and> lower ascii_lower ''orwell'' \<noteq> []
   \<and> ''Authors'' \<in> set (search_columns example_books)
   \<and> (\<exists>out. filtered_df re_compile_dot (\<lambda>c. []) ascii_lower example_books ''Authors'' ''orwell'' = Inr out
         \<and> rows out = [rows example_books ! 2])"
proof -
  have lit: "literal_pattern (lower ascii_lower ''orwell'')"
    by (simp add: lower_orwell literal_pattern_def re_special_def)
  have ne: "lower ascii_lower ''orwell'' \<noteq> []"
    by (simp add: lower_orwell)
  have col: "''Authors'' \<in> set (search_columns example_books)"
    by (simp add: search_columns_def example_books_def)
  from search_literal_query [OF python_re_dot lit ne col, where fmt = "\<lambda>c. []"]
  obtain out where
    o: "filtered_df re_compile_dot (\<lambda>c. []) ascii_lower example_books ''Authors'' ''orwell'' = Inr out"
    by blast
  have "rows out = [rows example_books ! 2]"
    using o
    by (auto simp: filtered_df_def search_columns_def selectbox_def example_books_def Let_def
        lower_orwell re_compile_dot_def re_special_def select_def str_contains_def
        str_lower_def astype_str_def lower_def ascii_lower_def lower_char_def sublist_Cons_right)
  with o lit ne col python_re_dot show ?thesis by blast
qed

text \<open>
  The claim as written fails where the query has a metacharacter: the query \<^verbatim>\<open>.\<close>
  is the pattern that matches any character, so it returns the record of Harper Lee,
  whose name holds no dot.
\<close>

theorem search_dot_counterexample:
  "filtered_df re_compile_dot (\<lambda>c. []) ascii_lower
      \<lparr>columns = [''Authors''], rows = [[''Authors'' \<mapsto> Str ''Harper Lee'']]\<rparr> ''Authors'' ''.''
     = Inr \<lparr>columns = [''Authors''], rows = [[''Authors'' \<mapsto> Str ''Harper Lee'']]\<rparr>
   \<and> \<not> sublist (lower ascii_lower ''.'') (lower ascii_lower ''Harper Lee'')"
  by (simp add: filtered_df_def search_columns_def selectbox_def Let_def
        re_compile_dot_def re_special_def select_def str_contains_def
        str_lower_def astype_str_def lower_def ascii_lower_def lower_char_def sublist_Cons_right)

text \<open>
  A missing value reaches \<^verbatim>\<open>str.contains\<close> as the text \<^verbatim>\<open>nan\<close>, so the option
  \<^verbatim>\<open>na=False\<close> never applies and the query \<^verbatim>\<open>nan\<close> finds the record.
\<close>

lemma search_missing_value_as_text:
  "filtered_df re_compile_dot fmt ascii_lower
      \<lparr>columns = [''Authors''], rows = [[''Authors'' \<mapsto> NaN]]\<rparr> ''Authors'' ''nan''
     = Inr \<lparr>columns = [''Authors''], rows = [[''Authors'' \<mapsto> NaN]]\<rparr>"
  by (simp add: filtered_df_def search_columns_def selectbox_def Let_def
        re_compile_dot_def re_special_def select_def str_contains_def
        str_lower_def astype_str_def lower_def ascii_lower_def lower_char_def)

text \<open>
  Claim C7. For every frame, the search with an empty query returns the frame itself,
  and so does the search with any query when the frame has neither a Title nor an Authors
  column.
\<close>

theorem search_empty_query_identity:
  "filtered_df re_compile fmt casefold df choice [] = Inr df
   \<and> (''Title'' \<notin> set (columns df) \<and> ''Authors'' \<notin> set (columns df) \<longrightarrow>
        filtered_df re_compile fmt casefold df choice typed = Inr df)"
  by (simp add: filtered_df_def search_columns_def lower_def)

theorem search_empty_query_identity_witness:
  "filtered_df re_compile_dot (\<lambda>c. []) ascii_lower example_books ''Authors'' [] = Inr example_books
   \<and> ''Title'' \<notin> set (columns \<lparr>columns = [''Status''], rows = [[''Status'' \<mapsto> Str ''Issued'']]\<rparr>)
   \<and> ''Authors'' \<notin> set (columns \<lparr>columns = [''Status''], rows = [[''Status'' \<mapsto> Str ''Issued'']]\<rparr>)
   \<and> filtered_df re_compile_dot (\<lambda>c. []) ascii_lower
        \<lparr>columns = [''Status''], rows = [[''Status'' \<mapsto> Str ''Issued'']]\<rparr> ''Title'' ''issued''
       = Inr \<lparr>columns = [''Status''], rows = [[''Status'' \<mapsto> Str ''Issued'']]\<rparr>"
  using search_empty_query_identity [of re_compile_dot "\<lambda>c. []" ascii_lower example_books
      "''Authors''"]
    search_empty_query_identity [of re_compile_dot "\<lambda>c. []" ascii_lower
      "\<lparr>columns = [''Status''], rows = [[''Status'' \<mapsto> Str ''Issued'']]\<rparr>" "''Title''" "''issued''"]
  by simp

section \<open>Properties of the export\<close>

text \<open>
  Claim C8. When the serialization fails, \<^verbatim>\<open>convert_df_to_excel\<close> returns \<^verbatim>\<open>None\<close>
  with the error message shown, and the caller offers no download. When it succeeds, the
  bytes returned are those the writer made of a single sheet whose header row is the
  column labels and whose body has one row per record, the cells in column order.
\<close>

theorem export_failure_is_caught:
  "(\<forall>e. xlsxwriter [to_excel df ''Library_Books''] = Inl e \<longrightarrow>
       convert_df_to_excel xlsxwriter df shown
         = (None, shown @ [''Error converting to Excel: '' @ e])
       \<and> fst (download_button xlsxwriter df shown) = None)
   \<and> (\<forall>content. xlsxwriter [to_excel df ''Library_Books''] = Inr content \<longrightarrow>
       convert_df_to_excel xlsxwriter df shown = (Some content, shown)
       \<and> (\<exists>s. xlsxwriter [s] = Inr content
             \<and> sheet_name s = ''Library_Books''
             \<and> header s = columns df
             \<and> length (body s) = length (rows df)
             \<and> (\<forall>i < length (rows df). body s ! i = map (rows df ! i) (columns df))))"
proof (intro conjI allI impI)
  fix e
  assume f: "xlsxwriter [to_excel df ''Library_Books''] = Inl e"
  then show "convert_df_to_excel xlsxwriter df shown
         = (None, shown @ [''Error converting to Excel: '' @ e])"
    by (simp add: convert_df_to_excel_def)
  then show "fst (download_button xlsxwriter df shown) = None"
    by (simp add: download_button_def)
next
  fix content
  assume s: "xlsxwriter [to_excel df ''Library_Books''] = Inr content"
  then show "convert_df_to_excel xlsxwriter df shown = (Some content, shown)"
    by (simp add: convert_df_to_excel_def)
  have "sheet_name (to_excel df ''Library_Books'') = ''Library_Books''"
    and "header (to_excel df ''Library_Books'') = columns df"
    and "length (body (to_excel df ''Library_Books'')) = length (rows df)"
    and "\<forall>i < length (rows df).
           body (to_excel df ''Library_Books'') ! i = map (rows df ! i) (columns df)"
    by (simp_all add: to_excel_def)
  with s show "\<exists>s. xlsxwriter [s] = Inr content
             \<and> sheet_name s = ''Library_Books''
             \<and> header s = columns df
             \<and> length (body s) = length (rows df)
             \<and> (\<forall>i < length (rows df). body s ! i = map (rows df ! i) (columns df))"
    by blast
qed

theorem export_failure_is_caught_witness:
  "convert_df_to_excel (\<lambda>sheets. Inl ''disk full'') example_books []
     = (None, [''Error converting to Excel: disk full''])
   \<and> fst (download_button (\<lambda>sheets. Inl ''disk full'') example_books []) = None
   \<and> convert_df_to_excel (\<lambda>sheets. Inr (concat (map sheet_name sheets))) example_books []
     = (Some ''Library_Books'', [])"
  using export_failure_is_caught [of "\<lambda>sheets. Inl ''disk full''" example_books "[]"]
    export_failure_is_caught [of "\<lambda>sheets. Inr (concat (map sheet_name sheets))" example_books "[]"]
  by (simp add: to_excel_def)

section \<open>Properties of the operations on the store\<close>

text \<open>The operations that make an object keep every object there is.\<close>

lemma DataFrame_store: "DataFrame h = (length h, h @ [new_frame])"
  by (simp add: DataFrame_def alloc_def)

lemma getitem_store: "getitem a keep h = (length h, h @ [select keep (h ! a)])"
  by (simp add: getitem_def alloc_def)

lemma copy_store: "copy a h = (length h, h @ [h ! a])"
  by (simp add: copy_def alloc_def)

text \<open>Writing a column changes the object: the loader turns the text of a date into a date.\<close>

lemma parse_dates_writes:
  "(rows ([raw_loan] ! 0) ! 0) ''Issue_Date'' = Some (Str ''2024-01-15'')
   \<and> (rows (parse_dates (map (\<lambda>x. Timestamp (19737 * day_ns))) 0 [raw_loan] ! 0) ! 0) ''Issue_Date''
       = Some (Timestamp (19737 * day_ns))"
  by (simp add: parse_dates_def setitem_def raw_loan_def)

text \<open>
  On the store each function computes what it computes on the frame, and puts its result
  in a new object.
\<close>

lemma count_where_at_store:
  assumes "a < length h"
  shows "fst (count_where_at a c v h) = count_where (h ! a) c v"
    and "snd (count_where_at a c v h) ! a = h ! a"
    and "a < length (snd (count_where_at a c v h))"
  using assms by (simp_all add: count_where_at_def count_where_def getitem_store nth_append)

lemma get_book_summary_at_value:
  assumes "a < length h"
  shows "fst (get_book_summary_at a h) = get_book_summary (h ! a)"
  using assms
  by (simp add: get_book_summary_at_def get_book_summary_def split_def Let_def
      count_where_at_store)

lemma get_flagged_books_at_value:
  "get_flagged_books_at a h = (length h, h @ [get_flagged_books (h ! a)])"
  by (simp add: get_flagged_books_at_def get_flagged_books_def DataFrame_store getitem_store)

lemma get_overdue_books_at_value:
  assumes "a < length h"
  shows "case get_overdue_books_at today a h of
           (Inl e, h') \<Rightarrow> get_overdue_books today (h ! a) = Inl e
         | (Inr b, h') \<Rightarrow> b < length h' \<and> get_overdue_books today (h ! a) = Inr (h' ! b)"
  using assms
  by (simp add: get_overdue_books_at_def get_overdue_books_def DataFrame_store getitem_store
      copy_store nth_append Let_def)

lemma get_underrepresented_genres_at_value:
  "fst (get_underrepresented_genres_at a threshold h)
     = get_underrepresented_genres (h ! a) threshold"
  by (simp add: get_underrepresented_genres_at_def get_underrepresented_genres_def Let_def)

lemma filtered_df_at_value:
  assumes "a < length h"
  shows "case filtered_df_at re_compile fmt casefold a choice typed h of
           (Inl e, h') \<Rightarrow> filtered_df re_compile fmt casefold (h ! a) choice typed = Inl e
         | (Inr b, h') \<Rightarrow> b < length h'
             \<and> filtered_df re_compile fmt casefold (h ! a) choice typed = Inr (h' ! b)"
  using assms
  by (simp add: filtered_df_at_def filtered_df_def getitem_store Let_def split: option.splits)

text \<open>
  Claim C9. None of the summary, the flagged-condition filter, the overdue filter, the
  underrepresented-category detector and the search changes the frame it is given: after
  the call, the store holds at the reference of the source frame the frame it held
  before.
\<close>

theorem operations_keep_source:
  assumes "a < length h"
  shows "snd (get_book_summary_at a h) ! a = h ! a
     \<and> snd (get_flagged_books_at a h) ! a = h ! a
     \<and> snd (get_overdue_books_at today a h) ! a = h ! a
     \<and> snd (get_underrepresented_genres_at a threshold h) ! a = h ! a
     \<and> snd (filtered_df_at re_compile fmt casefold a choice typed h) ! a = h ! a"
proof (intro conjI)
  show "snd (get_book_summary_at a h) ! a = h ! a"
    using assms
    by (simp add: get_book_summary_at_def split_def Let_def count_where_at_store)
  show "snd (get_flagged_books_at a h) ! a = h ! a"
    using assms
    by (simp add: get_flagged_books_at_def DataFrame_store getitem_store nth_append)
  show "snd (get_overdue_books_at today a h) ! a = h ! a"
    using assms
    by (simp add: get_overdue_books_at_def DataFrame_store getitem_store copy_store
        nth_append Let_def)
  show "snd (get_underrepresented_genres_at a threshold h) ! a = h ! a"
    by (simp add: get_underrepresented_genres_at_def Let_def)
  show "snd (filtered_df_at re_compile fmt casefold a choice typed h) ! a = h ! a"
    using assms
    by (simp add: filtered_df_at_def getitem_store nth_append Let_def split: option.splits)
qed

theorem operations_keep_source_witness:
  "(0::nat) < length [example_books]
   \<and> snd (get_book_summary_at 0 [example_books]) ! 0 = example_books
   \<and> snd (get_flagged_books_at 0 [example_books]) ! 0 = example_books
   \<and> snd (get_overdue_books_at (20000 * day_ns) 0 [example_books]) ! 0 = example_books
   \<and> snd (get_underrepresented_genres_at 0 default_threshold [example_books]) ! 0 = example_books
   \<and> snd (filtered_df_at re_compile_dot (\<lambda>c. []) ascii_lower 0 ''Authors'' ''orwell''
            [example_books]) ! 0
       = example_books"
  using operations_keep_source [of 0 "[example_books]" "20000 * day_ns" default_threshold
      re_compile_dot "\<lambda>c. []" ascii_lower "''Authors''" "''orwell''"]
  by simp

text \<open>
  The same holds of a whole pass of \<^verbatim>\<open>main\<close>, where the functions may be run on the
  loaded frame itself: every object of the store is kept, the loaded frame among them.
\<close>

lemma count_where_at_prefix: "prefix h (snd (count_where_at a c v h))"
  by (simp add: count_where_at_def getitem_store)

lemma summary_prefix: "prefix h (snd (get_book_summary_at a h))"
proof -
  have step: "prefix h k \<Longrightarrow> prefix h (snd (count_where_at a c v k))" for k c v
    using count_where_at_prefix prefix_order.trans by blast
  show ?thesis
    by (simp add: get_book_summary_at_def split_def Let_def step)
qed

lemma flagged_prefix: "prefix h (snd (get_flagged_books_at a h))"
  by (simp add: get_flagged_books_at_def DataFrame_store getitem_store)

lemma overdue_prefix: "prefix h (snd (get_overdue_books_at today a h))"
  by (simp add: get_overdue_books_at_def DataFrame_store getitem_store copy_store Let_def)

lemma genres_prefix: "prefix h (snd (get_underrepresented_genres_at a threshold h))"
  by (simp add: get_underrepresented_genres_at_def Let_def)

lemma search_prefix: "prefix h (snd (filtered_df_at re_compile fmt casefold a choice typed h))"
  by (simp add: filtered_df_at_def getitem_store Let_def split: option.splits)

lemma main_pass_prefix: "prefix h (main_pass re_compile fmt casefold today df choice typed h)"
proof -
  have s1: "prefix h k \<Longrightarrow> prefix h (snd (get_book_summary_at a k))" for a k
    using summary_prefix prefix_order.trans by blast
  have s2: "prefix h k \<Longrightarrow> prefix h (snd (get_flagged_books_at a k))" for a k
    using flagged_prefix prefix_order.trans by blast
  have s3: "prefix h k \<Longrightarrow> prefix h (snd (get_overdue_books_at today a k))" for a k
    using overdue_prefix prefix_order.trans by blast
  have s4: "prefix h k \<Longrightarrow> prefix h (snd (get_underrepresented_genres_at a t k))" for a t k
    using genres_prefix prefix_order.trans by blast
  show ?thesis
    unfolding main_pass_def
    by (simp add: split_def Let_def s1 s2 s3 s4 search_prefix split: sum.splits)
qed

lemma main_pass_keeps_loaded:
  assumes "df < length h"
  shows "main_pass re_compile fmt casefold today df choice typed h ! df = h ! df"
  using main_pass_prefix [of h re_compile fmt casefold today df choice typed] assms
  by (auto simp: prefix_def nth_append)

section \<open>Outputs keep the input order\<close>

text \<open>
  Claim C10. The rows returned by the flagged-condition filter, by the overdue filter and
  by the search are a subsequence of the input rows: each occurs in the input, in the same
  relative order. The overdue filter returns no frame only where it raises: \<^verbatim>\<open>TypeError\<close>
  on an Issue_Date column that is not a naive datetime column, \<^verbatim>\<open>OverflowError\<close> on an
  Issue_Date out of reach of the evaluation time. The search returns no frame only on a
  query that does not compile.
\<close>

theorem outputs_are_subsequences:
  "subseq (rows (get_flagged_books df)) (rows df)
   \<and> (case get_overdue_books today df of
         Inr out \<Rightarrow> subseq (rows out) (rows df)
       | Inl e \<Rightarrow>
           e = TypeError \<and> \<not> is_datetime64 df ''Issue_Date''
           \<or> e = OverflowError
              \<and> (\<exists>r \<in> set (rows df). \<exists>t. r ''Issue_Date'' = Some (Timestamp t)
                    \<and> (today - t \<le> - (2 ^ 63) \<or> 2 ^ 63 \<le> today - t)))
   \<and> (case filtered_df re_compile fmt casefold df choice typed of
         Inr out \<Rightarrow> subseq (rows out) (rows df)
       | Inl e \<Rightarrow> re_compile (lower casefold typed) = None)"
proof (intro conjI)
  show "subseq (rows (get_flagged_books df)) (rows df)"
    by (simp add: get_flagged_books_def new_frame_def subseq_select)
  have "subseq (rows (select p (select q df))) (rows df)" for p q
    by (simp add: select_def subseq_filter_left [THEN subseq_order.trans])
  moreover have "\<exists>r \<in> set (rows df). \<exists>t. r ''Issue_Date'' = Some (Timestamp t)
                    \<and> (today - t \<le> - (2 ^ 63) \<or> 2 ^ 63 \<le> today - t)"
    if "list_ex (\<lambda>r. overflows today (r ''Issue_Date'')) (rows (select q df))" for q
    using that by (auto simp: list_ex_iff select_def overflows_iff)
  ultimately show "case get_overdue_books today df of
         Inr out \<Rightarrow> subseq (rows out) (rows df)
       | Inl e \<Rightarrow>
           e = TypeError \<and> \<not> is_datetime64 df ''Issue_Date''
           \<or> e = OverflowError
              \<and> (\<exists>r \<in> set (rows df). \<exists>t. r ''Issue_Date'' = Some (Timestamp t)
                    \<and> (today - t \<le> - (2 ^ 63) \<or> 2 ^ 63 \<le> today - t))"
    by (simp add: get_overdue_books_def new_frame_def Let_def)
  show "case filtered_df re_compile fmt casefold df choice typed of
         Inr out \<Rightarrow> subseq (rows out) (rows df)
       | Inl e \<Rightarrow> re_compile (lower casefold typed) = None"
    by (simp add: filtered_df_def Let_def subseq_select split: option.splits)
qed

lemma overdue_loans:
  "get_overdue_books (20000 * day_ns) loans
     = Inr (loans\<lparr>rows := [rows loans ! 0, rows loans ! 4]\<rparr>)"
  by (simp add: get_overdue_books_def loans_def df_empty_def select_def eq_str_def
      is_datetime64_def overflows_def fits_timedelta_def isna_def gt_def day_ns_def Let_def)

lemma search_orwell:
  "filtered_df re_compile_dot (\<lambda>c. []) ascii_lower example_books ''Authors'' ''orwell''
     = Inr (example_books\<lparr>rows := [rows example_books ! 2]\<rparr>)"
  by (simp add: filtered_df_def search_columns_def selectbox_def example_books_def Let_def
        lower_orwell re_compile_dot_def re_special_def select_def str_contains_def
        str_lower_def astype_str_def lower_def ascii_lower_def lower_char_def sublist_Cons_right)

theorem outputs_are_subsequences_witness:
  "subseq (rows (get_flagged_books example_books)) (rows example_books)
   \<and> subseq [rows loans ! 0, rows loans ! 4] (rows loans)
   \<and> subseq [rows example_books ! 2] (rows example_books)"
  using outputs_are_subsequences [where df = example_books and today = "20000 * day_ns"
      and re_compile = re_compile_dot and fmt = "\<lambda>c. []" and casefold = ascii_lower
      and choice = "''Authors''"
      and typed = "''orwell''"]
    outputs_are_subsequences [where df = loans and today = "20000 * day_ns"
      and re_compile = re_compile_dot and fmt = "\<lambda>c. []" and casefold = ascii_lower
      and choice = "''Authors''"
      and typed = "''orwell''"]
  by (simp add: overdue_loans search_orwell)

end
